theory Spec2Isabelle
  imports Main "HOL-Library.List_Lexorder" "HOL-Library.Char_ord"
begin

section \<open>JavaScript values and strings\<close>

text \<open>
  A value of type \<open>string | null\<close> is a \<open>string option\<close>, with \<open>None\<close> for
  \<open>null\<close>. Strict equality \<open>===\<close> on such values is equality of the options, and
  a value is truthy exactly when it is a non-empty string.
\<close>

definition truthy :: "string option \<Rightarrow> bool" where
  "truthy v = (case v of None \<Rightarrow> False | Some s \<Rightarrow> s \<noteq> [])"

text \<open>
  \<open>String.prototype.trim\<close> removes white space and line terminators at both ends.
  Characters are code units below 256: tab, line feed, vertical tab, form feed,
  carriage return, space and the no-break space.
\<close>

definition isWhiteSpace :: "char \<Rightarrow> bool" where
  "isWhiteSpace c = (c \<in> set [CHR 0x09, CHR 0x0A, CHR 0x0B, CHR 0x0C, CHR 0x0D, CHR 0x20, CHR 0xA0])"

definition trim :: "string \<Rightarrow> string" where
  "trim s = rev (dropWhile isWhiteSpace (rev (dropWhile isWhiteSpace s)))"

text \<open>\<open>s.split('\n')[0]\<close>: the text before the first line feed (all of \<open>s\<close> without one).\<close>

definition firstLine :: "string \<Rightarrow> string" where
  "firstLine s = takeWhile (\<lambda>c. c \<noteq> CHR 0x0A) s"

section \<open>Reconciliation Decision Engine (danger/pack-version-check)\<close>

subsection \<open>Data\<close>

text \<open>
  \<open>PackVersionOptions\<close>: every field is optional, and \<open>checkPackVersion\<close> fills in
  the defaults by destructuring.
\<close>

record PackVersionOptions =
  filePath :: "string option"
  commentTitle :: "string option"
  allowPattern :: "string option"
  updateCommand :: "string option"
  commentBodyTemplate :: "string option"

record Versions =
  main :: "string option"
  pr :: "string option"
  base :: "string option"

text \<open>
  \<open>CheckResult\<close>: the three version fields are optional properties; the outer
  \<open>None\<close> is a property that is not there, \<open>Some None\<close> is \<open>null\<close>.
\<close>

record CheckResult =
  shouldBlock :: bool
  reason :: string
  mainVersion :: "string option option"
  prVersion :: "string option option"
  baseVersion :: "string option option"

text \<open>
  What the plugin reads from its surroundings: the Danger DSL (head branch of the
  pull request and the three file lists) and the host (shell commands through
  \<open>execSync\<close>, the working tree through \<open>fs\<close>, regular expressions through
  \<open>RegExp\<close>). A command or a read that throws is \<open>None\<close>.
\<close>

record DangerDSL =
  headRef :: string
  modified_files :: "string list"
  created_files :: "string list"
  deleted_files :: "string list"

record Host =
  execSync :: "string \<Rightarrow> string option"
  existsSync :: "string \<Rightarrow> bool"
  readFileSync :: "string \<Rightarrow> string option"
  regExpTest :: "string \<Rightarrow> string \<Rightarrow> bool"

subsection \<open>Reasons\<close>

definition reasonAllowed :: string where
  "reasonAllowed = ''Branch is allowed to modify versions''"

definition reasonUntouched :: string where
  "reasonUntouched = ''PR hasn't modified the version file''"

definition reasonMatch :: string where
  "reasonMatch = ''Versions match''"

definition reasonBothMissing :: string where
  "reasonBothMissing = ''Version file doesn't exist in either branch''"

definition reasonNewFile :: string where
  "reasonNewFile = ''New version file added (doesn't exist on main)''"

definition reasonDeleted :: string where
  "reasonDeleted = ''Version file was deleted''"

definition reasonNoBase :: string where
  "reasonNoBase = ''PR introduced version file that doesn't exist at merge base''"

definition reasonBranchOnly :: string where
  "reasonBranchOnly = ''PR modified version while main hasn't changed (invalid version or test)''"

definition reasonDivergent :: string where
  "reasonDivergent = ''Both PR and main have modified the version file differently (divergent versions)''"

subsection \<open>getVersions\<close>

definition showMainCommand :: "string \<Rightarrow> string" where
  "showMainCommand fp = ''git show origin/main:'' @ fp @ '' 2>/dev/null | head -n 1''"

definition mergeBaseCommand :: string where
  "mergeBaseCommand = ''git merge-base HEAD origin/main''"

definition showBaseCommand :: "string \<Rightarrow> string \<Rightarrow> string" where
  "showBaseCommand mergeBase fp = ''git show '' @ mergeBase @ '':'' @ fp @ '' 2>/dev/null | head -n 1''"

definition getVersions :: "Host \<Rightarrow> string \<Rightarrow> Versions" where
  "getVersions h fp =
     \<lparr> main = map_option trim (execSync h (showMainCommand fp)),
       pr = (if existsSync h fp
             then map_option (\<lambda>content. trim (firstLine content)) (readFileSync h fp)
             else None),
       base = (case execSync h mergeBaseCommand of
                 None \<Rightarrow> None
               | Some out \<Rightarrow>
                   (let mergeBase = trim out
                    in if mergeBase \<noteq> []
                       then map_option trim (execSync h (showBaseCommand mergeBase fp))
                       else None)) \<rparr>"

subsection \<open>evaluateBlockingConditions\<close>

text \<open>The record returned by \<open>evaluateBlockingConditions\<close>: the flag and the reason.\<close>

type_synonym Evaluation = "bool \<times> string"

definition evaluateBlockingConditions :: "Versions \<Rightarrow> bool \<Rightarrow> bool \<Rightarrow> Evaluation" where
  "evaluateBlockingConditions versions isCreated isDeleted =
     (if main versions = pr versions then (False, reasonMatch)
      else if \<not> truthy (main versions) \<and> \<not> truthy (pr versions) then (False, reasonBothMissing)
      else if \<not> truthy (main versions) \<and> truthy (pr versions) \<and> isCreated then (False, reasonNewFile)
      else if isDeleted then (True, reasonDeleted)
      else if \<not> truthy (base versions) then (True, reasonNoBase)
      else if base versions = main versions then (True, reasonBranchOnly)
      else (True, reasonDivergent))"

subsection \<open>checkPackVersion\<close>

definition defaultFilePath :: string where
  "defaultFilePath = ''.ui-sha''"

definition defaultAllowPattern :: string where
  "defaultAllowPattern = ''^(update|generate|auto)-.*''"

definition optFilePath :: "PackVersionOptions \<Rightarrow> string" where
  "optFilePath options = (case filePath options of None \<Rightarrow> defaultFilePath | Some p \<Rightarrow> p)"

definition optAllowPattern :: "PackVersionOptions \<Rightarrow> string" where
  "optAllowPattern options = (case allowPattern options of None \<Rightarrow> defaultAllowPattern | Some p \<Rightarrow> p)"

text \<open>The allow-list test: a non-empty pattern that \<open>RegExp.test\<close> finds in the branch name.\<close>

definition branchAllowed :: "Host \<Rightarrow> PackVersionOptions \<Rightarrow> DangerDSL \<Rightarrow> bool" where
  "branchAllowed h options danger =
     (optAllowPattern options \<noteq> [] \<and> regExpTest h (optAllowPattern options) (headRef danger))"

definition isModifiedOn :: "PackVersionOptions \<Rightarrow> DangerDSL \<Rightarrow> bool" where
  "isModifiedOn options danger = (optFilePath options \<in> set (modified_files danger))"

definition isCreatedOn :: "PackVersionOptions \<Rightarrow> DangerDSL \<Rightarrow> bool" where
  "isCreatedOn options danger = (optFilePath options \<in> set (created_files danger))"

definition isDeletedOn :: "PackVersionOptions \<Rightarrow> DangerDSL \<Rightarrow> bool" where
  "isDeletedOn options danger = (optFilePath options \<in> set (deleted_files danger))"

text \<open>
  The verdict of \<open>checkPackVersion\<close>. The comment and the failure it posts when the
  verdict blocks are rendering and not part of the value returned; they are left out.
\<close>

definition checkPackVersion :: "Host \<Rightarrow> DangerDSL \<Rightarrow> PackVersionOptions \<Rightarrow> CheckResult" where
  "checkPackVersion h danger options =
     (if branchAllowed h options danger
      then \<lparr> shouldBlock = False, reason = reasonAllowed,
             mainVersion = None, prVersion = None, baseVersion = None \<rparr>
      else if \<not> isModifiedOn options danger \<and> \<not> isCreatedOn options danger
                \<and> \<not> isDeletedOn options danger
      then \<lparr> shouldBlock = False, reason = reasonUntouched,
             mainVersion = None, prVersion = None, baseVersion = None \<rparr>
      else (let versions = getVersions h (optFilePath options);
                evaluation = evaluateBlockingConditions versions
                               (isCreatedOn options danger) (isDeletedOn options danger)
            in \<lparr> shouldBlock = fst evaluation, reason = snd evaluation,
                 mainVersion = Some (main versions), prVersion = Some (pr versions),
                 baseVersion = Some (base versions) \<rparr>))"

section \<open>Build-and-Pack Pipeline (pack-dependency/index.js)\<close>

subsection \<open>String helpers of the pipeline\<close>

text \<open>\<open>f.endsWith(suffix)\<close>.\<close>

definition endsWith :: "string \<Rightarrow> string \<Rightarrow> bool" where
  "endsWith s suf = (length suf \<le> length s \<and> drop (length s - length suf) s = suf)"

definition isDigit :: "char \<Rightarrow> bool" where
  "isDigit c = (CHR ''0'' \<le> c \<and> c \<le> CHR ''9'')"

text \<open>The character class \<open>[a-f0-9]\<close>.\<close>

definition isLowerHex :: "char \<Rightarrow> bool" where
  "isLowerHex c = (isDigit c \<or> (CHR ''a'' \<le> c \<and> c \<le> CHR ''f''))"

text \<open>
  With the flag \<open>m\<close>, \<open>^\<close> and \<open>$\<close> match at the line terminators, which below
  256 are line feed and carriage return.
\<close>

definition isLineTerminator :: "char \<Rightarrow> bool" where
  "isLineTerminator c = (c = CHR 0x0A \<or> c = CHR 0x0D)"

fun splitOn :: "(char \<Rightarrow> bool) \<Rightarrow> string \<Rightarrow> string list" where
  "splitOn P [] = [[]]"
| "splitOn P (c # cs) =
     (if P c then [] # splitOn P cs
      else (case splitOn P cs of [] \<Rightarrow> [[c]] | l # ls \<Rightarrow> (c # l) # ls))"

text \<open>
  \<open>content.match(/^[a-f0-9]{40}$/m)\<close>: the first line that is exactly forty lower-case
  hexadecimal digits; \<open>lastSha\<close> stays empty without one.
\<close>

definition matchSha :: "string \<Rightarrow> string option" where
  "matchSha content =
     find (\<lambda>l. length l = 40 \<and> list_all isLowerHex l) (splitOn isLineTerminator content)"

definition readLastSha :: "string option \<Rightarrow> string" where
  "readLastSha file =
     (case file of
        None \<Rightarrow> []
      | Some content \<Rightarrow> (case matchSha content of None \<Rightarrow> [] | Some sha \<Rightarrow> sha))"

text \<open>
  \<open>packedFile.match(/([0-9]+\.[0-9]+\.[0-9]+)\.tgz$/)\<close>: three runs of digits
  separated by dots and followed by \<open>.tgz\<close> at the end of the name, at the leftmost
  position where that matches.
\<close>

definition digitRun :: "string \<Rightarrow> (string \<times> string) option" where
  "digitRun s =
     (if takeWhile isDigit s = [] then None
      else Some (takeWhile isDigit s, dropWhile isDigit s))"

definition afterDot :: "string \<Rightarrow> string option" where
  "afterDot s = (case s of [] \<Rightarrow> None | c # cs \<Rightarrow> (if c = CHR ''.'' then Some cs else None))"

definition versionAt :: "string \<Rightarrow> string option" where
  "versionAt s =
     (case digitRun s of
        None \<Rightarrow> None
      | Some (d1, r1) \<Rightarrow>
          (case afterDot r1 of
             None \<Rightarrow> None
           | Some s2 \<Rightarrow>
               (case digitRun s2 of
                  None \<Rightarrow> None
                | Some (d2, r2) \<Rightarrow>
                    (case afterDot r2 of
                       None \<Rightarrow> None
                     | Some s3 \<Rightarrow>
                         (case digitRun s3 of
                            None \<Rightarrow> None
                          | Some (d3, r3) \<Rightarrow>
                              (if r3 = ''.tgz'' then Some (d1 @ ''.'' @ d2 @ ''.'' @ d3)
                               else None))))))"

fun versionMatch :: "string \<Rightarrow> string option" where
  "versionMatch [] = None"
| "versionMatch (c # cs) =
     (case versionAt (c # cs) of Some v \<Rightarrow> Some v | None \<Rightarrow> versionMatch cs)"

text \<open>\<open>packageName.replace(/[@\/]/g, '-').replace(/^-/, '')\<close>.\<close>

definition cleanName :: "string \<Rightarrow> string" where
  "cleanName name =
     (let dashed = map (\<lambda>c. if c = CHR ''@'' \<or> c = CHR ''/'' then CHR ''-'' else c) name
      in case dashed of [] \<Rightarrow> [] | c # cs \<Rightarrow> if c = CHR ''-'' then cs else c # cs)"

definition newName :: "string \<Rightarrow> string \<Rightarrow> string \<Rightarrow> string" where
  "newName pkg packedFile shortSha =
     cleanName pkg @ ''-''
       @ (case versionMatch packedFile of None \<Rightarrow> ''0.0.0'' | Some v \<Rightarrow> v)
       @ ''-'' @ shortSha @ ''.tgz''"

text \<open>The content the pipeline writes to the version file.\<close>

definition fileContent :: "string \<Rightarrow> string \<Rightarrow> string" where
  "fileContent pkg fullSha =
     ''# SHA of the last packed version of '' @ (if pkg \<noteq> [] then pkg else ''package'')
       @ [CHR 0x0A] @ fullSha @ [CHR 0x0A]"

subsection \<open>Inputs, surroundings and state\<close>

text \<open>The action's inputs as \<open>core.getInput\<close> returns them: empty when not given.\<close>

record Inputs =
  repository :: string
  targetSha :: string
  packageName :: string
  packDestination :: string
  packageCommand :: string
  packCommand :: string
  versionFilePath :: string
  token :: string

text \<open>
  The outcome of every external step of a run. A command that exits with an error, or
  a file operation that throws, is \<open>False\<close> or \<open>None\<close>. The packaging step is
  described by the file names it leaves in the destination directory; the external
  commands touch nothing else of the consuming repository. The two \<open>process.chdir\<close>
  calls and the listing of the directory that was just created are taken to succeed.
  \<open>rmTempDir\<close> is the removal of the temporary directory in \<open>finally\<close>, and
  \<open>pathJoin\<close> is \<open>path.join\<close>.
\<close>

record Env =
  mkdtemp :: bool
  gitClone :: bool
  reposGet :: "string option"
  gitCheckout :: "string \<Rightarrow> bool"
  revParseHead :: "string option"
  revParseShort :: "string option"
  gitLog :: "string \<Rightarrow> string option"
  pnpmInstall :: bool
  shPackageCommand :: "string \<Rightarrow> bool"
  mkdirDestination :: bool
  shPackCommand :: "string \<Rightarrow> string list option"
  pnpmPack :: "string list option"
  renameOk :: bool
  writeVersionFileOk :: bool
  writePackageJsonOk :: bool
  rmTempDir :: bool
  pathJoin :: "string \<Rightarrow> string \<Rightarrow> string"

text \<open>
  The values of \<open>JSON.parse\<close>. An object is the list of its own properties, each
  name once, in the order of \<open>Object.keys\<close>; numbers are taken as integers, of which
  only zero is falsy. What \<open>JSON.stringify\<close> writes is identified with the value it
  is written from; the limits of the engine on memory and on the length of a string
  are left out.
\<close>

datatype json =
    JNull | JBool bool | JNumber int | JString string
  | JArray "json list" | JObject "(string \<times> json) list"

text \<open>
  \<open>package.json\<close> as the run finds it: missing or unreadable, a text that
  \<open>JSON.parse\<close> rejects, or a text with its value.
\<close>

datatype PackageJson = NoPackageJson | Unparsable string | Parsed json

text \<open>
  The files of the consuming repository a run can change: the version file (the file
  at \<open>file-path\<close>, \<open>.ui-sha\<close> by default, which is a file other than
  \<open>package.json\<close>; \<open>None\<close> when it cannot be read), \<open>package.json\<close>, and the
  names in the destination directory.
\<close>

record World =
  versionFile :: "string option"
  packageJson :: PackageJson
  destination :: "string list"

datatype Failure =
    MkdtempFailed | CloneFailed | ReposGetFailed | CheckoutFailed | RevParseFailed
  | InstallFailed | PackageCommandFailed | MkdirFailed | PackCommandFailed
  | NoPackedFile | RenameFailed | VersionFileWriteFailed
  | PackageJsonReadFailed | PackageJsonParseFailed | PackageJsonUpdateFailed
  | PackageJsonWriteFailed | CleanupFailed

text \<open>
  What a run leaves behind besides the files: the outputs it has set, in order; the
  error its steps threw, if any; and whether the removal of the temporary directory in
  \<open>finally\<close> threw. An error thrown in \<open>finally\<close> replaces the one in flight, so
  \<open>core.setFailed\<close> gets the cleanup error when there is one and the error of the
  steps otherwise.
\<close>

record Report =
  outputs :: "(string \<times> string) list"
  failed :: "Failure option"
  cleanupFailed :: bool

definition setFailed :: "Report \<Rightarrow> Failure option" where
  "setFailed rep = (if cleanupFailed rep then Some CleanupFailed else failed rep)"

definition stop :: "World \<Rightarrow> (string \<times> string) list \<Rightarrow> Failure \<Rightarrow> World \<times> Report" where
  "stop w outs f = (w, \<lparr> outputs = outs, failed = Some f, cleanupFailed = False \<rparr>)"

subsection \<open>The steps on the consuming repository\<close>

text \<open>\<open>files.filter(f => f.endsWith('.tgz')).sort()\<close> and its last element.\<close>

definition tgzFiles :: "string list \<Rightarrow> string list" where
  "tgzFiles files = sort (filter (\<lambda>f. endsWith f ''.tgz'') files)"

definition findPackedFile :: "string list \<Rightarrow> Failure + string" where
  "findPackedFile files =
     (if length (tgzFiles files) = 0 then Inl NoPackedFile else Inr (last (tgzFiles files)))"

text \<open>The names in a directory after files are written into it, and after a rename.\<close>

definition deposit :: "string list \<Rightarrow> string list \<Rightarrow> string list" where
  "deposit files new = files @ filter (\<lambda>f. f \<notin> set files) (remdups new)"

definition renameIn :: "string \<Rightarrow> string \<Rightarrow> string list \<Rightarrow> string list" where
  "renameIn old new files =
     (if old = new then files else filter (\<lambda>f. f \<noteq> old \<and> f \<noteq> new) files @ [new])"

subsection \<open>The update of package.json\<close>

text \<open>The falsy values among those of \<open>JSON.parse\<close>.\<close>

definition falsy :: "json \<Rightarrow> bool" where
  "falsy j = (j = JNull \<or> j = JBool False \<or> j = JNumber 0 \<or> j = JString [])"

text \<open>
  An array index is a decimal numeral without a leading zero and below \<open>2^32 - 1\<close>.
  Objects list their array-index keys first, in ascending order, and the other keys in
  the order they were added.
\<close>

definition decimalValue :: "string \<Rightarrow> int" where
  "decimalValue s = foldl (\<lambda>n c. 10 * n + (of_char c - 48)) 0 s"

definition isArrayIndex :: "string \<Rightarrow> bool" where
  "isArrayIndex s =
     (s \<noteq> [] \<and> list_all isDigit s \<and> (hd s \<noteq> CHR ''0'' \<or> length s = 1)
      \<and> decimalValue s < 4294967295)"

fun replaceValue :: "string \<Rightarrow> json \<Rightarrow> (string \<times> json) list \<Rightarrow> (string \<times> json) list" where
  "replaceValue k v [] = []"
| "replaceValue k v (p # ps) = (if fst p = k then (k, v) # ps else p # replaceValue k v ps)"

definition comesBefore :: "string \<Rightarrow> string \<times> json \<Rightarrow> bool" where
  "comesBefore k p = (isArrayIndex (fst p) \<and> decimalValue (fst p) < decimalValue k)"

text \<open>An own property is given a value: in place when it is there, else as a new key.\<close>

definition setOwn :: "string \<Rightarrow> json \<Rightarrow> (string \<times> json) list \<Rightarrow> (string \<times> json) list" where
  "setOwn k v ps =
     (if k \<in> set (map fst ps) then replaceValue k v ps
      else if isArrayIndex k
      then takeWhile (comesBefore k) ps @ [(k, v)] @ dropWhile (comesBefore k) ps
      else ps @ [(k, v)])"

text \<open>
  \<open>object[name] = value\<close> for a string \<open>value\<close>, on an object that
  \<open>JSON.parse\<close> made or on \<open>{}\<close>: the name \<open>__proto__\<close>, when it is not an own
  property, is the setter of the prototype, which ignores a string.
\<close>

definition assignProperty :: "string \<Rightarrow> json \<Rightarrow> (string \<times> json) list \<Rightarrow> (string \<times> json) list" where
  "assignProperty k v ps =
     (if k = ''__proto__'' \<and> k \<notin> set (map fst ps) then ps else setOwn k v ps)"

text \<open>
  \<open>array[name] = value\<close> for a string \<open>value\<close>, as \<open>JSON.stringify\<close> shows it
  afterwards: an array index sets an element, with \<open>null\<close> for the holes before it;
  \<open>length\<close> throws a \<open>RangeError\<close>; any other name is a property that is not
  written out.
\<close>

definition assignElement :: "string \<Rightarrow> json \<Rightarrow> json list \<Rightarrow> json list option" where
  "assignElement k v xs =
     (if isArrayIndex k
      then Some (if nat (decimalValue k) < length xs then xs[nat (decimalValue k) := v]
                 else xs @ replicate (nat (decimalValue k) - length xs) JNull @ [v])
      else if k = ''length'' then None
      else Some xs)"

text \<open>
  The three statements on the parsed value, in a script that is not in strict mode:
  \<^verbatim>\<open>if (!packageJson.dependencies) { packageJson.dependencies = {}; }\<close>
  \<^verbatim>\<open>packageJson.dependencies[packageName] = `file:${finalPackage}`;\<close>
  and what \<open>JSON.stringify\<close> makes of the result; \<open>None\<close> when one of them
  throws. On \<open>null\<close> the read of \<open>dependencies\<close> throws. On a number, a string or
  a boolean the assignment of \<open>{}\<close> is ignored and the second statement throws. On
  an array \<open>dependencies\<close> becomes a property that is not written out. A truthy
  \<open>dependencies\<close> that is a number, a string or a boolean ignores the assignment.
\<close>

definition setDependency :: "string \<Rightarrow> string \<Rightarrow> json \<Rightarrow> json option" where
  "setDependency pkg reference j =
     (case j of
        JNull \<Rightarrow> None
      | JBool b \<Rightarrow> None
      | JNumber n \<Rightarrow> None
      | JString t \<Rightarrow> None
      | JArray xs \<Rightarrow> Some (JArray xs)
      | JObject ps \<Rightarrow>
          (case map_of ps ''dependencies'' of
             None \<Rightarrow>
               Some (JObject (setOwn ''dependencies''
                       (JObject (assignProperty pkg (JString reference) [])) ps))
           | Some d \<Rightarrow>
               (if falsy d
                then Some (JObject (setOwn ''dependencies''
                             (JObject (assignProperty pkg (JString reference) [])) ps))
                else (case d of
                        JObject deps \<Rightarrow>
                          Some (JObject (setOwn ''dependencies''
                                  (JObject (assignProperty pkg (JString reference) deps)) ps))
                      | JArray xs \<Rightarrow>
                          map_option (\<lambda>ys. JObject (setOwn ''dependencies'' (JArray ys) ps))
                            (assignElement pkg (JString reference) xs)
                      | JNull \<Rightarrow> Some (JObject ps)
                      | JBool b \<Rightarrow> Some (JObject ps)
                      | JNumber n \<Rightarrow> Some (JObject ps)
                      | JString t \<Rightarrow> Some (JObject ps)))))"

text \<open>The step on \<open>package.json\<close>: read, parse, update, write.\<close>

definition updatePackageJson :: "Env \<Rightarrow> string \<Rightarrow> string \<Rightarrow> PackageJson \<Rightarrow> Failure + PackageJson" where
  "updatePackageJson env pkg finalPackage file =
     (case file of
        NoPackageJson \<Rightarrow> Inl PackageJsonReadFailed
      | Unparsable text \<Rightarrow> Inl PackageJsonParseFailed
      | Parsed j \<Rightarrow>
          (case setDependency pkg (''file:'' @ finalPackage) j of
             None \<Rightarrow> Inl PackageJsonUpdateFailed
           | Some j' \<Rightarrow>
               (if \<not> writePackageJsonOk env then Inl PackageJsonWriteFailed
                else Inr (Parsed j'))))"

text \<open>
  The last two steps of a run: the version file is written first, then
  \<open>package.json\<close> is read, parsed, changed and written, when a package name is given.
\<close>

definition updateFiles ::
  "Env \<Rightarrow> string \<Rightarrow> string \<Rightarrow> string \<Rightarrow> (string \<times> string) list \<Rightarrow> World \<Rightarrow> World \<times> Report" where
  "updateFiles env pkg fullSha finalPackage outs w =
     (if \<not> writeVersionFileOk env then stop w outs VersionFileWriteFailed
      else
        let w1 = w\<lparr> versionFile := Some (fileContent pkg fullSha) \<rparr> in
        if pkg \<noteq> [] \<and> finalPackage \<noteq> [] then
          (case updatePackageJson env pkg finalPackage (packageJson w1) of
             Inl f \<Rightarrow> stop w1 outs f
           | Inr file \<Rightarrow>
               (w1\<lparr> packageJson := file \<rparr>,
                \<lparr> outputs = outs, failed = None, cleanupFailed = False \<rparr>))
        else (w1, \<lparr> outputs = outs, failed = None, cleanupFailed = False \<rparr>))"

text \<open>
  From the directory listing to the end of the run: find the packed file, rename it
  when a package name is given, then update the files.
\<close>

definition packAndUpdate ::
  "Env \<Rightarrow> Inputs \<Rightarrow> string \<Rightarrow> string \<Rightarrow> string \<Rightarrow> (string \<times> string) list \<Rightarrow> World \<Rightarrow> World \<times> Report" where
  "packAndUpdate env inp dest fullSha shortSha outs w =
     (case findPackedFile (destination w) of
        Inl f \<Rightarrow> stop w outs f
      | Inr packedFile \<Rightarrow>
          if packageName inp \<noteq> [] then
            (if \<not> renameOk env then stop w outs RenameFailed
             else
               let renamed = newName (packageName inp) packedFile shortSha;
                   w1 = w\<lparr> destination := renameIn packedFile renamed (destination w) \<rparr>;
                   finalPackage = pathJoin env dest renamed
               in updateFiles env (packageName inp) fullSha finalPackage
                    (outs @ [(''package-file'', finalPackage)]) w1)
          else
            (let finalPackage = pathJoin env dest packedFile
             in updateFiles env (packageName inp) fullSha finalPackage
                  (outs @ [(''package-file'', finalPackage)]) w))"

subsection \<open>run\<close>

text \<open>\<open>core.getInput('pack-destination') || './packs'\<close>.\<close>

definition destinationOf :: "Inputs \<Rightarrow> string" where
  "destinationOf inp = (if packDestination inp \<noteq> [] then packDestination inp else ''./packs'')"

text \<open>The packaging step: the custom command when one is given, else \<open>pnpm pack\<close>.\<close>

definition packStep :: "Env \<Rightarrow> Inputs \<Rightarrow> string list option" where
  "packStep env inp =
     (if packCommand inp \<noteq> [] then shPackCommand env (packCommand inp) else pnpmPack env)"

text \<open>
  The inner \<open>try\<close> block, from the clone to the update of the files, given the
  commit read from the version file and the output set before the block.
\<close>

definition steps ::
  "Env \<Rightarrow> Inputs \<Rightarrow> string \<Rightarrow> (string \<times> string) list \<Rightarrow> World \<Rightarrow> World \<times> Report" where
  "steps env inp lastSha outs0 w =
     (if \<not> gitClone env then stop w outs0 CloneFailed
      else
        (case (if targetSha inp \<noteq> [] then Some (targetSha inp) else reposGet env) of
           None \<Rightarrow> stop w outs0 ReposGetFailed
         | Some checkoutTarget \<Rightarrow>
            (if \<not> gitCheckout env checkoutTarget then stop w outs0 CheckoutFailed
             else
               (case revParseHead env of
                  None \<Rightarrow> stop w outs0 RevParseFailed
                | Some headOut \<Rightarrow>
                   (case revParseShort env of
                      None \<Rightarrow> stop w outs0 RevParseFailed
                    | Some shortOut \<Rightarrow>
                       (let fullSha = trim headOut;
                            shortSha = trim shortOut;
                            outs1 = outs0 @ [(''full-sha'', fullSha), (''short-sha'', shortSha)];
                            changelog =
                              (if lastSha \<noteq> []
                               then (case gitLog env (lastSha @ ''..'' @ fullSha) of
                                       None \<Rightarrow> [] | Some text \<Rightarrow> text)
                               else []);
                            outs2 = outs1 @ [(''changelog'', changelog)]
                        in
                        if \<not> pnpmInstall env then stop w outs2 InstallFailed
                        else if packageCommand inp \<noteq> []
                                  \<and> \<not> shPackageCommand env (packageCommand inp)
                        then stop w outs2 PackageCommandFailed
                        else if \<not> mkdirDestination env then stop w outs2 MkdirFailed
                        else
                          (case packStep env inp of
                             None \<Rightarrow> stop w outs2 PackCommandFailed
                           | Some packed \<Rightarrow>
                               packAndUpdate env inp (destinationOf inp) fullSha shortSha outs2
                                 (w\<lparr> destination := deposit (destination w) packed \<rparr>))))))))"

text \<open>
  \<open>run\<close>: the version file is read, the temporary directory is made, the steps run
  and, whatever they did, \<open>finally\<close> removes the temporary directory.
\<close>

definition run :: "Env \<Rightarrow> Inputs \<Rightarrow> World \<Rightarrow> World \<times> Report" where
  "run env inp w =
     (let lastSha = readLastSha (versionFile w);
          outs0 = [(''last-sha'', lastSha)]
      in
      if \<not> mkdtemp env then stop w outs0 MkdtempFailed
      else
        (case steps env inp lastSha outs0 w of
           (w', rep) \<Rightarrow> (w', rep\<lparr> cleanupFailed := \<not> rmTempDir env \<rparr>)))"

text \<open>The failures of the steps that come before the destination directory is read.\<close>

definition earlyFailures :: "Failure list" where
  "earlyFailures = [MkdtempFailed, CloneFailed, ReposGetFailed, CheckoutFailed, RevParseFailed,
     InstallFailed, PackageCommandFailed, MkdirFailed, PackCommandFailed]"

section \<open>SHA Resolution and Rollback Guard\<close>

text \<open>
  Modelled from the spec: the source of the Guard (\<open>resolve\<close>, the validate-sha
  action) is missing; section 4.1 of the specification describes it and the README
  lists its outputs. The upstream repository is a commit graph (each commit with its
  parents) with named references.
\<close>

record Upstream =
  commits :: "(string \<times> string list) list"
  references :: "(string \<times> string) list"
  defaultBranch :: string

datatype ResolveError = ResolutionError | RollbackRejected

record Resolution =
  resolvedIdentifier :: string
  shortIdentifier :: string
  previousIdentifier :: "string option"
  isRollback :: bool

text \<open>Modelled from the spec: the parents of a commit in the upstream graph.\<close>

definition parentsOf :: "Upstream \<Rightarrow> string \<Rightarrow> string list" where
  "parentsOf up c = (case map_of (commits up) c of None \<Rightarrow> [] | Some ps \<Rightarrow> ps)"

text \<open>
  Modelled from the spec: the commits reached from \<open>c\<close> along at most \<open>n\<close> parent
  links, \<open>c\<close> included.
\<close>

fun reached :: "nat \<Rightarrow> Upstream \<Rightarrow> string \<Rightarrow> string list" where
  "reached 0 up c = [c]"
| "reached (Suc n) up c = c # concat (map (reached n up) (parentsOf up c))"

text \<open>
  Modelled from the spec: the ancestry check of the upstream graph. A commit counts as
  its own ancestor, so resolving to the previous identifier itself is no rollback.
\<close>

definition isAncestor :: "Upstream \<Rightarrow> string \<Rightarrow> string \<Rightarrow> bool" where
  "isAncestor up a b = (a \<in> set (reached (length (commits up)) up b))"

text \<open>
  Modelled from the spec: a requested target is empty (the tip of the default branch),
  the name of a reference, or a commit identifier, possibly shortened; the result is
  always the full identifier of a commit of the graph.
\<close>

definition resolveTarget :: "Upstream \<Rightarrow> string \<Rightarrow> string option" where
  "resolveTarget up requestedTarget =
     (let name = (if requestedTarget = [] then defaultBranch up else requestedTarget) in
      case map_of (references up) name of
        Some c \<Rightarrow> (if c \<in> set (map fst (commits up)) then Some c else None)
      | None \<Rightarrow>
          (case remdups (filter (\<lambda>c. take (length name) c = name) (map fst (commits up))) of
             [c] \<Rightarrow> Some c
           | _ \<Rightarrow> None))"

text \<open>
  Modelled from the spec: \<open>resolve\<close> of the missing Guard. The previous identifier is
  read from the tracked file through the Version Reader; it is a rollback when that
  identifier is known and is not an ancestor of the resolved one, which is refused
  with \<open>RollbackRejected\<close> unless \<open>allowRollback\<close> is set. The short identifier is
  the first eight characters.
\<close>

definition resolve ::
  "Upstream \<Rightarrow> (string \<Rightarrow> string option) \<Rightarrow> string \<Rightarrow> string \<Rightarrow> bool \<Rightarrow> ResolveError + Resolution" where
  "resolve up versionReader requestedTarget trackedFilePath allowRollback =
     (case resolveTarget up requestedTarget of
        None \<Rightarrow> Inl ResolutionError
      | Some resolved \<Rightarrow>
          (let previous = versionReader trackedFilePath;
               rollback = (case previous of None \<Rightarrow> False
                           | Some p \<Rightarrow> \<not> isAncestor up p resolved)
           in if rollback \<and> \<not> allowRollback then Inl RollbackRejected
              else Inr \<lparr> resolvedIdentifier = resolved,
                         shortIdentifier = take 8 resolved,
                         previousIdentifier = previous,
                         isRollback = rollback \<rparr>))"

section \<open>Concrete surroundings for the examples\<close>

text \<open>
  What \<open>new RegExp(pattern).test(s)\<close> answers for the default allow pattern
  \<open>^(update|generate|auto)-.*\<close>, the only pattern the examples use: whether \<open>s\<close>
  starts with \<open>update-\<close>, \<open>generate-\<close> or \<open>auto-\<close>.
\<close>

definition exampleRegExpTest :: "string \<Rightarrow> string \<Rightarrow> bool" where
  "exampleRegExpTest pattern s =
     (pattern = defaultAllowPattern
      \<and> (take 7 s = ''update-'' \<or> take 9 s = ''generate-'' \<or> take 5 s = ''auto-''))"

text \<open>
  A checkout whose merge base is \<open>c0ffee\<close>, with the given outputs of the two
  \<open>git show ... | head -n 1\<close> commands for \<open>.ui-sha\<close> (on \<open>origin/main\<close> and at the
  merge base) and the given content of \<open>.ui-sha\<close> in the working tree.
\<close>

definition exampleHost :: "string option \<Rightarrow> string option \<Rightarrow> string option \<Rightarrow> Host" where
  "exampleHost mainOut workFile baseOut =
     \<lparr> execSync = (\<lambda>cmd. if cmd = showMainCommand ''.ui-sha'' then mainOut
                          else if cmd = mergeBaseCommand then Some (''c0ffee'' @ [CHR 0x0A])
                          else if cmd = showBaseCommand ''c0ffee'' ''.ui-sha'' then baseOut
                          else None),
       existsSync = (\<lambda>p. p = ''.ui-sha'' \<and> workFile \<noteq> None),
       readFileSync = (\<lambda>p. if p = ''.ui-sha'' then workFile else None),
       regExpTest = exampleRegExpTest \<rparr>"

definition exampleDanger :: "string \<Rightarrow> string list \<Rightarrow> string list \<Rightarrow> string list \<Rightarrow> DangerDSL" where
  "exampleDanger branch modified created deleted =
     \<lparr> headRef = branch, modified_files = modified, created_files = created,
       deleted_files = deleted \<rparr>"

text \<open>\<open>checkPackVersion()\<close> called with no options.\<close>

definition noOptions :: PackVersionOptions where
  "noOptions = \<lparr> filePath = None, commentTitle = None, allowPattern = None,
                 updateCommand = None, commentBodyTemplate = None \<rparr>"

text \<open>
  A run in which every external step succeeds: the upstream head is \<open>exampleSha\<close>,
  and the packaging step leaves the given files in the destination directory.
  \<open>path.join\<close> is given for a relative directory without dots beyond a leading
  \<open>./\<close>.
\<close>

definition examplePathJoin :: "string \<Rightarrow> string \<Rightarrow> string" where
  "examplePathJoin dir name = (if take 2 dir = ''./'' then drop 2 dir else dir) @ ''/'' @ name"

definition exampleSha :: string where
  "exampleSha = ''0123456789abcdef0123456789abcdef01234567''"

definition otherSha :: string where
  "otherSha = ''89abcdef0123456789abcdef0123456789abcdef''"

definition exampleEnv :: "string list \<Rightarrow> Env" where
  "exampleEnv packed =
     \<lparr> mkdtemp = True, gitClone = True, reposGet = Some ''main'',
       gitCheckout = (\<lambda>target. True),
       revParseHead = Some (exampleSha @ [CHR 0x0A]),
       revParseShort = Some (''0123456'' @ [CHR 0x0A]),
       gitLog = (\<lambda>range. Some []),
       pnpmInstall = True, shPackageCommand = (\<lambda>cmd. True), mkdirDestination = True,
       shPackCommand = (\<lambda>cmd. Some packed), pnpmPack = Some packed,
       renameOk = True, writeVersionFileOk = True, writePackageJsonOk = True,
       rmTempDir = True, pathJoin = examplePathJoin \<rparr>"

definition exampleInputs :: "string \<Rightarrow> Inputs" where
  "exampleInputs pkg =
     \<lparr> repository = ''temporalio/ui'', targetSha = [], packageName = pkg,
       packDestination = [], packageCommand = [], packCommand = [],
       versionFilePath = [], token = ''t'' \<rparr>"

definition exampleManifest :: json where
  "exampleManifest =
     JObject [(''name'', JString ''app''),
              (''dependencies'', JObject [(''left-pad'', JString ''1.3.0'')])]"

definition exampleWorld :: "PackageJson \<Rightarrow> string list \<Rightarrow> World" where
  "exampleWorld pj files =
     \<lparr> versionFile = Some (fileContent ''@temporalio/ui'' otherSha),
       packageJson = pj, destination = files \<rparr>"

text \<open>Scenario E of the specification: \<open>aaa\<close> is the parent of \<open>bbb\<close>, the tip of \<open>main\<close>.\<close>

definition exampleUpstream :: Upstream where
  "exampleUpstream =
     \<lparr> commits = [(''bbb'', [''aaa'']), (''aaa'', [])],
       references = [(''main'', ''bbb'')],
       defaultBranch = ''main'' \<rparr>"

text \<open>The downstream trunk records \<open>bbb\<close> in \<open>.ui-sha\<close>.\<close>

definition exampleReader :: "string \<Rightarrow> string option" where
  "exampleReader path = (if path = ''.ui-sha'' then Some ''bbb'' else None)"

section \<open>Properties of the Reconciliation Decision Engine\<close>

lemmas reason_defs = reasonAllowed_def reasonUntouched_def reasonMatch_def
  reasonBothMissing_def reasonNewFile_def reasonDeleted_def reasonNoBase_def
  reasonBranchOnly_def reasonDivergent_def

lemmas engine_defs = checkPackVersion_def branchAllowed_def isModifiedOn_def isCreatedOn_def
  isDeletedOn_def optFilePath_def optAllowPattern_def

lemmas example_defs = exampleHost_def exampleDanger_def noOptions_def exampleRegExpTest_def
  defaultFilePath_def defaultAllowPattern_def showMainCommand_def mergeBaseCommand_def
  showBaseCommand_def

lemmas reader_defs = getVersions_def truthy_def trim_def firstLine_def isWhiteSpace_def

text \<open>
  C1, amended. Where the branch is not on the allow list, the tracked file was touched
  and not deleted on the branch, the merge-base value is present (a non-empty string)
  and equals the trunk value, and the trunk value differs from the proposed value, the
  verdict is blocked with the branch-only-edit reason. The merge-base value has to be
  present: the code asks \<open>!base\<close> before it compares \<open>base\<close> with \<open>main\<close>.
\<close>

theorem branch_only_edit_blocked:
  assumes "\<not> branchAllowed h options danger"
    and "isModifiedOn options danger \<or> isCreatedOn options danger \<or> isDeletedOn options danger"
    and "\<not> isDeletedOn options danger"
    and "truthy (base (getVersions h (optFilePath options)))"
    and "base (getVersions h (optFilePath options)) = main (getVersions h (optFilePath options))"
    and "main (getVersions h (optFilePath options)) \<noteq> pr (getVersions h (optFilePath options))"
  shows "shouldBlock (checkPackVersion h danger options)
       \<and> reason (checkPackVersion h danger options) = reasonBranchOnly"
  using assms by (auto simp add: checkPackVersion_def evaluateBlockingConditions_def Let_def)

text \<open>
  Scenario B of the specification: trunk and merge base hold \<open>abc123\<close>, the branch
  changed the file to \<open>test-999\<close>.
\<close>

theorem branch_only_edit_blocked_witness:
  "(let h = exampleHost (Some (''abc123'' @ [CHR 0x0A])) (Some (''test-999'' @ [CHR 0x0A]))
              (Some (''abc123'' @ [CHR 0x0A]));
        danger = exampleDanger ''feature/x'' [''.ui-sha''] [] []
    in \<not> branchAllowed h noOptions danger
     \<and> isModifiedOn noOptions danger
     \<and> \<not> isDeletedOn noOptions danger
     \<and> getVersions h (optFilePath noOptions)
         = \<lparr> main = Some ''abc123'', pr = Some ''test-999'', base = Some ''abc123'' \<rparr>
     \<and> shouldBlock (checkPackVersion h danger noOptions)
     \<and> reason (checkPackVersion h danger noOptions) = reasonBranchOnly)"
proof -
  define h where "h = exampleHost (Some (''abc123'' @ [CHR 0x0A])) (Some (''test-999'' @ [CHR 0x0A]))
              (Some (''abc123'' @ [CHR 0x0A]))"
  define danger where "danger = exampleDanger ''feature/x'' [''.ui-sha''] [] []"
  have a: "\<not> branchAllowed h noOptions danger"
    by (simp add: h_def danger_def engine_defs example_defs)
  have m: "isModifiedOn noOptions danger"
    by (simp add: danger_def engine_defs example_defs)
  have d: "\<not> isDeletedOn noOptions danger"
    by (simp add: danger_def engine_defs example_defs)
  have v: "getVersions h (optFilePath noOptions)
         = \<lparr> main = Some ''abc123'', pr = Some ''test-999'', base = Some ''abc123'' \<rparr>"
    by (simp add: h_def engine_defs example_defs reader_defs)
  have t: "truthy (base (getVersions h (optFilePath noOptions)))"
    by (simp add: v truthy_def)
  have e: "base (getVersions h (optFilePath noOptions)) = main (getVersions h (optFilePath noOptions))"
    by (simp add: v)
  have n: "main (getVersions h (optFilePath noOptions)) \<noteq> pr (getVersions h (optFilePath noOptions))"
    by (simp add: v)
  from branch_only_edit_blocked [OF a _ d t e n] a m d v
  show ?thesis unfolding h_def danger_def Let_def by simp
qed

text \<open>
  The claim as stated fails where trunk and merge base are both empty: the file is not
  on \<open>origin/main\<close> nor at the merge base (\<open>git show\<close> prints nothing), and the
  branch modified it. Every condition the claim lists holds, and the reason is the one
  for a missing merge-base value.
\<close>

theorem branch_only_edit_empty_base_counterexample:
  "(let h = exampleHost (Some []) (Some (''abc123'' @ [CHR 0x0A])) (Some []);
        danger = exampleDanger ''feature/x'' [''.ui-sha''] [] [];
        versions = getVersions h (optFilePath noOptions)
    in \<not> branchAllowed h noOptions danger
     \<and> isModifiedOn noOptions danger
     \<and> \<not> isDeletedOn noOptions danger
     \<and> base versions = main versions
     \<and> main versions \<noteq> pr versions
     \<and> \<not> (\<not> truthy (main versions) \<and> \<not> truthy (pr versions))
     \<and> \<not> (\<not> truthy (main versions) \<and> truthy (pr versions) \<and> isCreatedOn noOptions danger)
     \<and> shouldBlock (checkPackVersion h danger noOptions)
     \<and> reason (checkPackVersion h danger noOptions) = reasonNoBase
     \<and> reason (checkPackVersion h danger noOptions) \<noteq> reasonBranchOnly)"
  by (simp add: Let_def engine_defs example_defs reader_defs evaluateBlockingConditions_def
      reason_defs)

text \<open>
  C2, amended. Where the branch is not on the allow list and the tracked file is in
  none of the three file lists, the verdict is not blocked with the untouched reason,
  whatever the trunk, proposed and merge-base values are (they are not read).
\<close>

theorem untouched_not_blocked:
  assumes "\<not> branchAllowed h options danger"
    and "\<not> isModifiedOn options danger"
    and "\<not> isCreatedOn options danger"
    and "\<not> isDeletedOn options danger"
  shows "checkPackVersion h danger options =
           \<lparr> shouldBlock = False, reason = reasonUntouched,
             mainVersion = None, prVersion = None, baseVersion = None \<rparr>"
  using assms by (simp add: checkPackVersion_def)

theorem untouched_not_blocked_witness:
  "(let h = exampleHost (Some ''aaa'') (Some ''bbb'') (Some ''aaa'');
        danger = exampleDanger ''feature/x'' [''README.md''] [] []
    in main (getVersions h ''.ui-sha'') \<noteq> pr (getVersions h ''.ui-sha'')
     \<and> \<not> branchAllowed h noOptions danger
     \<and> \<not> isModifiedOn noOptions danger
     \<and> \<not> isCreatedOn noOptions danger
     \<and> \<not> isDeletedOn noOptions danger
     \<and> \<not> shouldBlock (checkPackVersion h danger noOptions)
     \<and> reason (checkPackVersion h danger noOptions) = reasonUntouched)"
proof -
  define h where "h = exampleHost (Some ''aaa'') (Some ''bbb'') (Some ''aaa'')"
  define danger where "danger = exampleDanger ''feature/x'' [''README.md''] [] []"
  have a: "\<not> branchAllowed h noOptions danger"
    by (simp add: h_def danger_def engine_defs example_defs)
  have m: "\<not> isModifiedOn noOptions danger"
    by (simp add: danger_def engine_defs example_defs)
  have c: "\<not> isCreatedOn noOptions danger"
    by (simp add: danger_def engine_defs example_defs)
  have d: "\<not> isDeletedOn noOptions danger"
    by (simp add: danger_def engine_defs example_defs)
  have v: "main (getVersions h ''.ui-sha'') \<noteq> pr (getVersions h ''.ui-sha'')"
    by (simp add: h_def example_defs reader_defs)
  from untouched_not_blocked [OF a m c d] a m c d v
  show ?thesis unfolding h_def danger_def Let_def by simp
qed

text \<open>
  The claim as stated fails on a branch of the allow list: \<open>update-deps\<close> matches the
  default pattern, the file is untouched, and the reason is the allow-list one.
\<close>

theorem untouched_allowed_branch_counterexample:
  "(let h = exampleHost (Some ''aaa'') (Some ''bbb'') (Some ''aaa'');
        danger = exampleDanger ''update-deps'' [''README.md''] [] []
    in \<not> isModifiedOn noOptions danger
     \<and> \<not> isCreatedOn noOptions danger
     \<and> \<not> isDeletedOn noOptions danger
     \<and> reason (checkPackVersion h danger noOptions) = reasonAllowed
     \<and> reason (checkPackVersion h danger noOptions) \<noteq> reasonUntouched)"
  by (simp add: Let_def engine_defs example_defs reason_defs)

text \<open>
  C4, amended. Where the branch is not on the allow list and the tracked file was
  deleted on the branch, the verdict is blocked with the deleted reason exactly when
  none of the three earlier rules applies: the trunk and proposed values differ, and
  the trunk value is present, or the proposed value is present and the file is not
  also among the created files.
\<close>

theorem deleted_blocked_iff:
  assumes "\<not> branchAllowed h options danger"
    and "isDeletedOn options danger"
  shows "(shouldBlock (checkPackVersion h danger options)
          \<and> reason (checkPackVersion h danger options) = reasonDeleted)
       = (main (getVersions h (optFilePath options)) \<noteq> pr (getVersions h (optFilePath options))
          \<and> (truthy (main (getVersions h (optFilePath options)))
              \<or> (truthy (pr (getVersions h (optFilePath options)))
                  \<and> \<not> isCreatedOn options danger)))"
  using assms
  by (auto simp add: checkPackVersion_def evaluateBlockingConditions_def Let_def reason_defs)

theorem deleted_blocked_iff_witness:
  "(let h = exampleHost (Some (''abc123'' @ [CHR 0x0A])) None (Some (''abc123'' @ [CHR 0x0A]));
        danger = exampleDanger ''feature/x'' [] [] [''.ui-sha'']
    in \<not> branchAllowed h noOptions danger
     \<and> isDeletedOn noOptions danger
     \<and> main (getVersions h (optFilePath noOptions)) \<noteq> pr (getVersions h (optFilePath noOptions))
     \<and> truthy (main (getVersions h (optFilePath noOptions)))
     \<and> shouldBlock (checkPackVersion h danger noOptions)
     \<and> reason (checkPackVersion h danger noOptions) = reasonDeleted)"
proof -
  define h where "h = exampleHost (Some (''abc123'' @ [CHR 0x0A])) None (Some (''abc123'' @ [CHR 0x0A]))"
  define danger where "danger = exampleDanger ''feature/x'' [] [] [''.ui-sha'']"
  have a: "\<not> branchAllowed h noOptions danger"
    by (simp add: h_def danger_def engine_defs example_defs)
  have d: "isDeletedOn noOptions danger"
    by (simp add: danger_def engine_defs example_defs)
  have v: "main (getVersions h (optFilePath noOptions)) \<noteq> pr (getVersions h (optFilePath noOptions))"
    by (simp add: h_def getVersions_def engine_defs example_defs)
  have t: "truthy (main (getVersions h (optFilePath noOptions)))"
    by (simp add: h_def engine_defs example_defs reader_defs)
  from deleted_blocked_iff [OF a d] a d v t
  show ?thesis unfolding h_def danger_def Let_def by simp
qed

text \<open>
  The claim as stated fails where the file is not on \<open>origin/main\<close> (\<open>git show\<close>
  prints nothing, the trunk value is the empty string) and was deleted on the branch:
  the both-missing rule comes first and the verdict is not blocked.
\<close>

theorem deleted_both_missing_counterexample:
  "(let h = exampleHost (Some []) None (Some []);
        danger = exampleDanger ''feature/x'' [] [] [''.ui-sha'']
    in \<not> branchAllowed h noOptions danger
     \<and> isDeletedOn noOptions danger
     \<and> \<not> shouldBlock (checkPackVersion h danger noOptions)
     \<and> reason (checkPackVersion h danger noOptions) = reasonBothMissing
     \<and> reason (checkPackVersion h danger noOptions) \<noteq> reasonDeleted)"
  by (simp add: Let_def engine_defs example_defs reader_defs evaluateBlockingConditions_def
      reason_defs)

text \<open>
  C5. Where an allow pattern is configured (a non-empty string) and the branch name
  matches it, the verdict is not blocked with the allowed-branch reason and carries no
  versions: the result is the same for every file list and every content of the
  tracked file at trunk, on the branch and at the merge base.
\<close>

theorem allowed_branch_short_circuit:
  assumes "optAllowPattern options \<noteq> []"
    and "regExpTest h (optAllowPattern options) (headRef danger)"
  shows "checkPackVersion h danger options =
           \<lparr> shouldBlock = False, reason = reasonAllowed,
             mainVersion = None, prVersion = None, baseVersion = None \<rparr>"
  using assms by (simp add: checkPackVersion_def branchAllowed_def)

theorem allowed_branch_short_circuit_witness:
  "(let h = exampleHost (Some ''aaa'') (Some ''test-999'') (Some ''aaa'');
        danger = exampleDanger ''update-ui-2024'' [''.ui-sha''] [] []
    in optAllowPattern noOptions \<noteq> []
     \<and> regExpTest h (optAllowPattern noOptions) (headRef danger)
     \<and> isModifiedOn noOptions danger
     \<and> \<not> shouldBlock (checkPackVersion h danger noOptions)
     \<and> reason (checkPackVersion h danger noOptions) = reasonAllowed)"
proof -
  define h where "h = exampleHost (Some ''aaa'') (Some ''test-999'') (Some ''aaa'')"
  define danger where "danger = exampleDanger ''update-ui-2024'' [''.ui-sha''] [] []"
  have p: "optAllowPattern noOptions \<noteq> []"
    by (simp add: engine_defs example_defs)
  have r: "regExpTest h (optAllowPattern noOptions) (headRef danger)"
    by (simp add: h_def danger_def engine_defs example_defs)
  have m: "isModifiedOn noOptions danger"
    by (simp add: danger_def engine_defs example_defs)
  from allowed_branch_short_circuit [OF p r] p r m
  show ?thesis unfolding h_def danger_def Let_def by simp
qed

text \<open>
  C9. \<open>evaluateBlockingConditions\<close> answers \<open>Versions match\<close> when the trunk and
  proposed values are both \<open>null\<close>, since \<open>null === null\<close>; it answers that the
  version file exists in neither branch exactly when the two values are different and
  both falsy, which leaves the empty string on one side and \<open>null\<close> on the other.
  The same holds for the verdict of \<open>checkPackVersion\<close> once the branch is off the
  allow list and the file was touched, which is when the function is called.
\<close>

theorem null_values_match:
  "evaluateBlockingConditions \<lparr> main = None, pr = None, base = b \<rparr> isCreated isDeleted
     = (False, reasonMatch)
   \<and> evaluateBlockingConditions \<lparr> main = Some [], pr = None, base = b \<rparr> isCreated isDeleted
     = (False, reasonBothMissing)
   \<and> evaluateBlockingConditions \<lparr> main = None, pr = Some [], base = b \<rparr> isCreated isDeleted
     = (False, reasonBothMissing)
   \<and> ((snd (evaluateBlockingConditions versions isCreated isDeleted) = reasonBothMissing)
      = (main versions \<noteq> pr versions \<and> \<not> truthy (main versions) \<and> \<not> truthy (pr versions)))
   \<and> (\<not> branchAllowed h options danger
        \<and> (isModifiedOn options danger \<or> isCreatedOn options danger \<or> isDeletedOn options danger)
      \<longrightarrow>
        (main (getVersions h (optFilePath options)) = None
           \<and> pr (getVersions h (optFilePath options)) = None
         \<longrightarrow> \<not> shouldBlock (checkPackVersion h danger options)
             \<and> reason (checkPackVersion h danger options) = reasonMatch)
        \<and> ((reason (checkPackVersion h danger options) = reasonBothMissing)
           = (main (getVersions h (optFilePath options)) \<noteq> pr (getVersions h (optFilePath options))
              \<and> \<not> truthy (main (getVersions h (optFilePath options)))
              \<and> \<not> truthy (pr (getVersions h (optFilePath options))))))"
proof -
  have e: "(snd (evaluateBlockingConditions v c d) = reasonBothMissing)
      = (main v \<noteq> pr v \<and> \<not> truthy (main v) \<and> \<not> truthy (pr v))" for v c d
    by (simp add: evaluateBlockingConditions_def reason_defs)
  show ?thesis
    by (simp add: e checkPackVersion_def Let_def)
       (simp add: evaluateBlockingConditions_def truthy_def reason_defs)
qed

text \<open>
  A branch that deleted the file, in a checkout where the \<open>git show\<close> for
  \<open>origin/main\<close> throws: both values are \<open>null\<close>.
\<close>

theorem null_values_match_witness:
  "(let h = exampleHost None None None;
        danger = exampleDanger ''feature/x'' [] [] [''.ui-sha'']
    in \<not> branchAllowed h noOptions danger
     \<and> isDeletedOn noOptions danger
     \<and> main (getVersions h (optFilePath noOptions)) = None
     \<and> pr (getVersions h (optFilePath noOptions)) = None
     \<and> \<not> shouldBlock (checkPackVersion h danger noOptions)
     \<and> reason (checkPackVersion h danger noOptions) = reasonMatch
     \<and> reason (checkPackVersion h danger noOptions) \<noteq> reasonBothMissing)"
proof -
  define h where "h = exampleHost None None None"
  define danger where "danger = exampleDanger ''feature/x'' [] [] [''.ui-sha'']"
  have a: "\<not> branchAllowed h noOptions danger"
    by (simp add: h_def danger_def engine_defs example_defs)
  have d: "isDeletedOn noOptions danger"
    by (simp add: danger_def engine_defs example_defs)
  have m: "main (getVersions h (optFilePath noOptions)) = None"
    by (simp add: h_def engine_defs example_defs reader_defs)
  have p: "pr (getVersions h (optFilePath noOptions)) = None"
    by (simp add: h_def engine_defs example_defs reader_defs)
  from null_values_match [of _ _ _ _ h noOptions danger] a d m p
  have "\<not> shouldBlock (checkPackVersion h danger noOptions)
     \<and> reason (checkPackVersion h danger noOptions) = reasonMatch
     \<and> reason (checkPackVersion h danger noOptions) \<noteq> reasonBothMissing"
    by (simp add: reason_defs)
  with a d m p show ?thesis unfolding h_def danger_def Let_def by (simp add: reason_defs)
qed

section \<open>Properties of the Build-and-Pack Pipeline\<close>

lemma sorted_le_last: "sorted xs \<Longrightarrow> x \<in> set xs \<Longrightarrow> x \<le> last xs"
  by (induction xs) auto

lemma tgzFiles_set: "set (tgzFiles files) = {f \<in> set files. endsWith f ''.tgz''}"
  by (simp add: tgzFiles_def)


lemma last_tgzFiles:
  assumes "tgzFiles files \<noteq> []"
  shows "last (tgzFiles files) \<in> set files"
    and "endsWith (last (tgzFiles files)) ''.tgz''"
    and "\<forall>g\<in>set files. endsWith g ''.tgz'' \<longrightarrow> g \<le> last (tgzFiles files)"
proof -
  from assms have "last (tgzFiles files) \<in> set (tgzFiles files)" by simp
  then show "last (tgzFiles files) \<in> set files" "endsWith (last (tgzFiles files)) ''.tgz''"
    unfolding tgzFiles_set by simp_all
  have "sorted (tgzFiles files)" by (simp add: tgzFiles_def)
  then show "\<forall>g\<in>set files. endsWith g ''.tgz'' \<longrightarrow> g \<le> last (tgzFiles files)"
    using sorted_le_last [of "tgzFiles files"] unfolding tgzFiles_set by blast
qed


lemma packAndUpdate_none:
  assumes "tgzFiles (destination w) = []"
  shows "packAndUpdate env inp dest sha short outs w = stop w outs NoPackedFile"
  using assms by (simp add: packAndUpdate_def findPackedFile_def)

lemma packAndUpdate_plain:
  assumes "tgzFiles (destination w) \<noteq> []" and "packageName inp = []"
  shows "packAndUpdate env inp dest sha short outs w =
           updateFiles env [] sha (pathJoin env dest (last (tgzFiles (destination w))))
             (outs @ [(''package-file'', pathJoin env dest (last (tgzFiles (destination w))))]) w"
  using assms by (simp add: packAndUpdate_def findPackedFile_def Let_def)


lemma map_of_snoc: "map_of outs k = None \<Longrightarrow> map_of (outs @ [(k, v)]) k = Some v"
  by (simp add: map_add_def)



lemma updateFiles_unnamed:
  "updateFiles env [] sha fp outs w =
     (if \<not> writeVersionFileOk env
      then (w, \<lparr> outputs = outs, failed = Some VersionFileWriteFailed, cleanupFailed = False \<rparr>)
      else (w\<lparr> versionFile := Some (fileContent [] sha) \<rparr>,
            \<lparr> outputs = outs, failed = None, cleanupFailed = False \<rparr>))"
  by (simp add: updateFiles_def stop_def Let_def)

lemma packAndUpdate_unnamed:
  assumes "packageName inp = []"
  shows "packAndUpdate env inp dest sha short outs w =
     (if tgzFiles (destination w) = [] then (w, \<lparr> outputs = outs, failed = Some NoPackedFile, cleanupFailed = False \<rparr>)
      else updateFiles env [] sha (pathJoin env dest (last (tgzFiles (destination w))))
             (outs @ [(''package-file'', pathJoin env dest (last (tgzFiles (destination w))))]) w)"
  using assms by (simp add: packAndUpdate_def findPackedFile_def Let_def stop_def)

lemma packAndUpdate_unnamed_frame:
  assumes "packageName inp = []"
  shows "packAndUpdate env inp dest sha short outs (w\<lparr> packageJson := pj, destination := d \<rparr>) =
           (fst (packAndUpdate env inp dest sha short outs (w\<lparr> destination := d \<rparr>))\<lparr> packageJson := pj \<rparr>,
            snd (packAndUpdate env inp dest sha short outs (w\<lparr> destination := d \<rparr>)))"
  by (simp add: packAndUpdate_unnamed [OF assms] updateFiles_unnamed)

lemma run_unnamed_frame:
  assumes "packageName inp = []"
  shows "run env inp (w\<lparr> packageJson := pj \<rparr>) =
           (fst (run env inp w)\<lparr> packageJson := pj \<rparr>, snd (run env inp w))"
  by (simp add: run_def steps_def Let_def stop_def packAndUpdate_unnamed_frame [OF assms]
        split: option.splits prod.splits)

lemma steps_build_ok:
  assumes "gitClone env"
    and "(if targetSha inp \<noteq> [] then Some (targetSha inp) else reposGet env) = Some target"
    and "gitCheckout env target"
    and "revParseHead env = Some headOut" and "revParseShort env = Some shortOut"
    and "pnpmInstall env"
    and "packageCommand inp = [] \<or> shPackageCommand env (packageCommand inp)"
    and "mkdirDestination env"
    and "packStep env inp = Some packed"
  shows "\<exists>outs. map_of outs ''package-file'' = None
           \<and> steps env inp (readLastSha (versionFile w)) [(''last-sha'', readLastSha (versionFile w))] w =
             packAndUpdate env inp (destinationOf inp) (trim headOut) (trim shortOut) outs
               (w\<lparr> destination := deposit (destination w) packed \<rparr>)"
proof -
  from assms(7) have c: "\<not> (packageCommand inp \<noteq> [] \<and> \<not> shPackageCommand env (packageCommand inp))"
    by blast
  define lastSha where "lastSha = readLastSha (versionFile w)"
  define outs where "outs = [(''last-sha'', lastSha)] @ [(''full-sha'', trim headOut), (''short-sha'', trim shortOut)]
      @ [(''changelog'', (if lastSha \<noteq> []
                               then (case gitLog env (lastSha @ ''..'' @ trim headOut) of
                                       None \<Rightarrow> [] | Some text \<Rightarrow> text)
                               else []))]"
  have "map_of outs ''package-file'' = None" by (simp add: outs_def)
  moreover have "steps env inp (readLastSha (versionFile w)) [(''last-sha'', readLastSha (versionFile w))] w =
             packAndUpdate env inp (destinationOf inp) (trim headOut) (trim shortOut) outs
               (w\<lparr> destination := deposit (destination w) packed \<rparr>)"
    unfolding steps_def Let_def outs_def lastSha_def
    by (simp only: assms(1-6) assms(8) assms(9) c not_True_eq_False if_False option.case append_assoc)
  ultimately show ?thesis by blast
qed

lemma steps_build_failed:
  assumes "\<not> (gitClone env
     \<and> (\<exists>target. (if targetSha inp \<noteq> [] then Some (targetSha inp) else reposGet env) = Some target
           \<and> gitCheckout env target)
     \<and> revParseHead env \<noteq> None \<and> revParseShort env \<noteq> None
     \<and> pnpmInstall env
     \<and> (packageCommand inp = [] \<or> shPackageCommand env (packageCommand inp))
     \<and> mkdirDestination env
     \<and> packStep env inp \<noteq> None)"
  shows "fst (steps env inp lastSha outs0 w) = w
       \<and> (\<exists>f\<in>set earlyFailures. failed (snd (steps env inp lastSha outs0 w)) = Some f)"
proof -
  let ?goal = "fst (steps env inp lastSha outs0 w) = w
       \<and> (\<exists>f\<in>set earlyFailures. failed (snd (steps env inp lastSha outs0 w)) = Some f)"
  let ?target = "(if targetSha inp \<noteq> [] then Some (targetSha inp) else reposGet env)"
  show ?goal
  proof (cases "gitClone env")
    case False
    then show ?goal
      by (auto simp add: steps_def Let_def stop_def earlyFailures_def)
  next
    case a: True
    show ?goal
    proof (cases ?target)
      case None
      with a show ?goal
        by (simp add: steps_def Let_def stop_def earlyFailures_def)
    next
      case t: (Some target)
      show ?goal
      proof (cases "gitCheckout env target")
        case False
        with a t show ?goal
          by (simp add: steps_def Let_def stop_def earlyFailures_def)
      next
        case co: True
        show ?goal
        proof (cases "revParseHead env")
          case None
          with a t co show ?goal
            by (simp add: steps_def Let_def stop_def earlyFailures_def)
        next
          case h: (Some headOut)
          show ?goal
          proof (cases "revParseShort env")
            case None
            with a t co h show ?goal
              by (simp add: steps_def Let_def stop_def earlyFailures_def)
          next
            case s: (Some shortOut)
            show ?goal
            proof (cases "pnpmInstall env")
              case False
              with a t co h s show ?goal
                by (simp add: steps_def Let_def stop_def earlyFailures_def)
            next
              case i: True
              show ?goal
              proof (cases "packageCommand inp = [] \<or> shPackageCommand env (packageCommand inp)")
                case False
                with a t co h s i show ?goal
                  by (simp add: steps_def Let_def stop_def earlyFailures_def)
              next
                case pc: True
                show ?goal
                proof (cases "mkdirDestination env")
                  case False
                  with a t co h s i pc show ?goal
                    by (auto simp add: steps_def Let_def stop_def earlyFailures_def)
                next
                  case md: True
                  from assms a t co h s i pc md have "packStep env inp = None"
                    by auto
                  with a t co h s i pc md show ?goal
                    by (auto simp add: steps_def Let_def stop_def earlyFailures_def)
                qed
              qed
            qed
          qed
        qed
      qed
    qed
  qed
qed

lemma steps_shape:
  "(fst (steps env inp (readLastSha (versionFile w)) [(''last-sha'', readLastSha (versionFile w))] w) = w
      \<and> (\<exists>f\<in>set earlyFailures.
            failed (snd (steps env inp (readLastSha (versionFile w))
                           [(''last-sha'', readLastSha (versionFile w))] w)) = Some f))
   \<or> (\<exists>headOut shortOut packed outs.
         revParseHead env = Some headOut \<and> revParseShort env = Some shortOut
         \<and> packStep env inp = Some packed
         \<and> map_of outs ''package-file'' = None
         \<and> steps env inp (readLastSha (versionFile w)) [(''last-sha'', readLastSha (versionFile w))] w =
             packAndUpdate env inp (destinationOf inp) (trim headOut) (trim shortOut) outs
               (w\<lparr> destination := deposit (destination w) packed \<rparr>))"
proof (cases "gitClone env
     \<and> (\<exists>target. (if targetSha inp \<noteq> [] then Some (targetSha inp) else reposGet env) = Some target
           \<and> gitCheckout env target)
     \<and> revParseHead env \<noteq> None \<and> revParseShort env \<noteq> None
     \<and> pnpmInstall env
     \<and> (packageCommand inp = [] \<or> shPackageCommand env (packageCommand inp))
     \<and> mkdirDestination env
     \<and> packStep env inp \<noteq> None")
  case False
  from steps_build_failed [OF False] show ?thesis by blast
next
  case True
  then obtain target headOut shortOut packed where
    "gitClone env"
    "(if targetSha inp \<noteq> [] then Some (targetSha inp) else reposGet env) = Some target"
    "gitCheckout env target"
    "revParseHead env = Some headOut" "revParseShort env = Some shortOut"
    "pnpmInstall env"
    "packageCommand inp = [] \<or> shPackageCommand env (packageCommand inp)"
    "mkdirDestination env"
    "packStep env inp = Some packed"
    by auto
  from steps_build_ok [OF this] this(4,5,9) show ?thesis by blast
qed

text \<open>
  A run either stops before the destination directory is read, with nothing changed,
  or is what \<open>packAndUpdate\<close> does on the directory the packaging step left, with
  the outcome of the cleanup added.
\<close>

lemma run_shape:
  "(fst (run env inp w) = w
      \<and> (\<exists>f\<in>set earlyFailures. failed (snd (run env inp w)) = Some f))
   \<or> (\<exists>headOut shortOut packed outs rep0.
         revParseHead env = Some headOut \<and> revParseShort env = Some shortOut
         \<and> packStep env inp = Some packed
         \<and> map_of outs ''package-file'' = None
         \<and> packAndUpdate env inp (destinationOf inp) (trim headOut) (trim shortOut) outs
               (w\<lparr> destination := deposit (destination w) packed \<rparr>) = (fst (run env inp w), rep0)
         \<and> failed (snd (run env inp w)) = failed rep0
         \<and> outputs (snd (run env inp w)) = outputs rep0)"
proof (cases "mkdtemp env")
  case False
  then show ?thesis
    by (simp add: run_def Let_def stop_def earlyFailures_def)
next
  case True
  let ?s = "steps env inp (readLastSha (versionFile w)) [(''last-sha'', readLastSha (versionFile w))] w"
  from True have f: "fst (run env inp w) = fst ?s"
    and g: "failed (snd (run env inp w)) = failed (snd ?s)"
    and h: "outputs (snd (run env inp w)) = outputs (snd ?s)"
    by (simp_all add: run_def Let_def split: prod.splits)
  from steps_shape [of env inp w]
  show ?thesis
  proof
    assume "fst ?s = w \<and> (\<exists>f\<in>set earlyFailures. failed (snd ?s) = Some f)"
    with f g show ?thesis by simp
  next
    assume "\<exists>headOut shortOut packed outs.
         revParseHead env = Some headOut \<and> revParseShort env = Some shortOut
         \<and> packStep env inp = Some packed
         \<and> map_of outs ''package-file'' = None
         \<and> ?s = packAndUpdate env inp (destinationOf inp) (trim headOut) (trim shortOut) outs
               (w\<lparr> destination := deposit (destination w) packed \<rparr>)"
    then obtain headOut shortOut packed outs where
      a: "revParseHead env = Some headOut" "revParseShort env = Some shortOut"
         "packStep env inp = Some packed" "map_of outs ''package-file'' = None"
      and e: "?s = packAndUpdate env inp (destinationOf inp) (trim headOut) (trim shortOut) outs
               (w\<lparr> destination := deposit (destination w) packed \<rparr>)"
      by blast
    have "packAndUpdate env inp (destinationOf inp) (trim headOut) (trim shortOut) outs
               (w\<lparr> destination := deposit (destination w) packed \<rparr>) = (fst (run env inp w), snd ?s)"
      using e f by (metis prod.collapse)
    with a g h show ?thesis by blast
  qed
qed

lemma run_cleanup:
  "cleanupFailed (snd (run env inp w)) = (mkdtemp env \<and> \<not> rmTempDir env)"
  by (simp add: run_def Let_def stop_def split: prod.splits)

lemma run_reported:
  assumes "run env inp w = (w', rep)"
  shows "setFailed rep
           = (if mkdtemp env \<and> \<not> rmTempDir env then Some CleanupFailed else failed rep)"
proof -
  from assms have "snd (run env inp w) = rep" by simp
  with run_cleanup [of env inp w]
  have "cleanupFailed rep = (mkdtemp env \<and> \<not> rmTempDir env)" by simp
  then show ?thesis by (simp add: setFailed_def)
qed










lemmas pipeline_defs = run_def steps_def packAndUpdate_def updateFiles_def updatePackageJson_def
  setDependency_def assignProperty_def assignElement_def setOwn_def comesBefore_def
  isArrayIndex_def decimalValue_def falsy_def stop_def findPackedFile_def
  tgzFiles_def endsWith_def deposit_def renameIn_def newName_def cleanName_def versionAt_def
  digitRun_def afterDot_def isDigit_def fileContent_def readLastSha_def matchSha_def
  isLineTerminator_def isLowerHex_def trim_def isWhiteSpace_def
  destinationOf_def packStep_def setFailed_def

lemmas pipeline_example_defs = exampleEnv_def exampleInputs_def exampleWorld_def
  exampleManifest_def examplePathJoin_def exampleSha_def otherSha_def






lemma example_run_two_files:
  "run (exampleEnv [''a-1.0.0.tgz'', ''b-2.0.0.tgz'']) (exampleInputs [])
       (exampleWorld (Parsed exampleManifest) [])
   = (\<lparr> versionFile = Some (fileContent [] exampleSha),
        packageJson = Parsed exampleManifest,
        destination = [''a-1.0.0.tgz'', ''b-2.0.0.tgz''] \<rparr>,
      \<lparr> outputs = [(''last-sha'', otherSha), (''full-sha'', exampleSha),
                    (''short-sha'', ''0123456''), (''changelog'', []),
                    (''package-file'', ''packs/b-2.0.0.tgz'')],
        failed = None, cleanupFailed = False \<rparr>)"
  by (simp add: pipeline_defs pipeline_example_defs Let_def)









text \<open>
  C10. In a run without a package name \<open>package.json\<close> is unchanged, whether the run
  fails or not, and it is not read: with any other \<open>package.json\<close> the run reports
  the same and changes the other files in the same way. The destination directory is
  as it was or as the packaging step left it, so no file is renamed. When the run
  succeeds the version file holds the new commit and the package file is the last
  \<open>.tgz\<close> name of the directory under its own name. Success and failure are those
  of the steps; a failing cleanup is reported on top of them.
\<close>

theorem run_without_package_name:
  assumes n: "packageName inp = []"
    and r: "run env inp w = (w', rep)"
  shows "packageJson w' = packageJson w
       \<and> run env inp (w\<lparr> packageJson := pj \<rparr>) = (w'\<lparr> packageJson := pj \<rparr>, rep)
       \<and> (destination w' = destination w
          \<or> (\<exists>packed. packStep env inp = Some packed
                \<and> destination w' = deposit (destination w) packed))
       \<and> (failed rep = None \<longrightarrow>
            (\<exists>headOut packed.
               revParseHead env = Some headOut \<and> packStep env inp = Some packed
             \<and> versionFile w' = Some (fileContent [] (trim headOut))
             \<and> destination w' = deposit (destination w) packed
             \<and> last (tgzFiles (destination w')) \<in> set (destination w')
             \<and> map_of (outputs rep) ''package-file''
                 = Some (pathJoin env (destinationOf inp) (last (tgzFiles (destination w'))))))
       \<and> setFailed rep
           = (if mkdtemp env \<and> \<not> rmTempDir env then Some CleanupFailed else failed rep)"
proof -
  from r have w': "fst (run env inp w) = w'" and rep: "snd (run env inp w) = rep"
    by simp_all
  have frame: "run env inp (w\<lparr> packageJson := pj \<rparr>) = (w'\<lparr> packageJson := pj \<rparr>, rep)"
    using run_unnamed_frame [OF n, where env = env and w = w and pj = pj] r by simp
  from run_shape [of env inp w]
  consider (early) "w' = w" "\<exists>f\<in>set earlyFailures. failed rep = Some f"
    | (late) headOut shortOut packed outs rep0 where
      "revParseHead env = Some headOut" "packStep env inp = Some packed"
      "map_of outs ''package-file'' = None"
      "packAndUpdate env inp (destinationOf inp) (trim headOut) (trim shortOut) outs
           (w\<lparr> destination := deposit (destination w) packed \<rparr>) = (w', rep0)"
      "failed rep = failed rep0" "outputs rep = outputs rep0"
    unfolding w' rep by blast
  then have rest: "packageJson w' = packageJson w
       \<and> (destination w' = destination w
          \<or> (\<exists>packed. packStep env inp = Some packed
                \<and> destination w' = deposit (destination w) packed))
       \<and> (failed rep = None \<longrightarrow>
            (\<exists>headOut packed.
               revParseHead env = Some headOut \<and> packStep env inp = Some packed
             \<and> versionFile w' = Some (fileContent [] (trim headOut))
             \<and> destination w' = deposit (destination w) packed
             \<and> last (tgzFiles (destination w')) \<in> set (destination w')
             \<and> map_of (outputs rep) ''package-file''
                 = Some (pathJoin env (destinationOf inp) (last (tgzFiles (destination w'))))))"
  proof cases
    case early
    then show ?thesis by auto
  next
    case late
    let ?files = "deposit (destination w) packed"
    let ?w0 = "w\<lparr> destination := ?files \<rparr>"
    note p = late(4)
    show ?thesis
    proof (cases "tgzFiles ?files = []")
      case True
      with p late(2,5) show ?thesis
        by (auto simp add: packAndUpdate_none stop_def)
    next
      case False
      from last_tgzFiles(1) [OF False] have mem: "last (tgzFiles ?files) \<in> set ?files" .
      from p False n
      have u: "updateFiles env [] (trim headOut)
                 (pathJoin env (destinationOf inp) (last (tgzFiles ?files)))
                 (outs @ [(''package-file'',
                     pathJoin env (destinationOf inp) (last (tgzFiles ?files)))]) ?w0 = (w', rep0)"
        by (simp add: packAndUpdate_plain)
      from u have v: "w' = (if \<not> writeVersionFileOk env then ?w0
                            else ?w0\<lparr> versionFile := Some (fileContent [] (trim headOut)) \<rparr>)"
        and x: "failed rep0 = (if \<not> writeVersionFileOk env then Some VersionFileWriteFailed else None)"
        and y: "outputs rep0 = outs @ [(''package-file'',
                     pathJoin env (destinationOf inp) (last (tgzFiles ?files)))]"
        by (auto simp add: updateFiles_unnamed split: if_splits)
      from v x y late(1,2,3,5,6) mem show ?thesis
        by (auto simp add: map_of_snoc simp del: map_of_append)
    qed
  qed
  with frame run_reported [OF r] show ?thesis by blast
qed

text \<open>
  The run with two archives and no package name, on a repository with a manifest and
  on the same repository without \<open>package.json\<close>.
\<close>

theorem run_without_package_name_witness:
  "(let result = run (exampleEnv [''a-1.0.0.tgz'', ''b-2.0.0.tgz'']) (exampleInputs [])
                   (exampleWorld (Parsed exampleManifest) [])
    in packageName (exampleInputs []) = []
     \<and> failed (snd result) = None
     \<and> packageJson (fst result) = Parsed exampleManifest
     \<and> versionFile (fst result) = Some (fileContent [] exampleSha)
     \<and> destination (fst result) = [''a-1.0.0.tgz'', ''b-2.0.0.tgz'']
     \<and> run (exampleEnv [''a-1.0.0.tgz'', ''b-2.0.0.tgz'']) (exampleInputs [])
           (exampleWorld NoPackageJson [])
         = (fst result\<lparr> packageJson := NoPackageJson \<rparr>, snd result))"
proof -
  have n: "packageName (exampleInputs []) = []"
    by (simp add: exampleInputs_def)
  have w: "(exampleWorld (Parsed exampleManifest) [])\<lparr> packageJson := NoPackageJson \<rparr>
             = exampleWorld NoPackageJson []"
    by (simp add: exampleWorld_def)
  from run_without_package_name [OF n example_run_two_files, of NoPackageJson] n
  show ?thesis
    unfolding Let_def example_run_two_files w by simp
qed

section \<open>Readers of the version file\<close>

text \<open>
  C6. The file the pipeline writes has a comment as its first line and the commit as
  its second. The pipeline's own reader finds the commit in it. The reader of
  \<open>getVersions\<close> takes the first line, so the proposed value it returns is the
  comment; with the same kind of file on \<open>origin/main\<close>, for another commit, the two
  values are the same comment and the verdict is that the versions match. Neither
  reader looks for the first line that is not blank: the reader of \<open>getVersions\<close>
  returns the empty string for a file that starts with an empty line, and the
  pipeline's reader returns nothing for a commit that is not written as forty
  lower-case hexadecimal digits.
\<close>

theorem danger_reader_takes_comment_line:
  "pr (getVersions (exampleHost mainOut (Some (fileContent [] exampleSha)) baseOut) ''.ui-sha'')
     = Some ''# SHA of the last packed version of package''
   \<and> readLastSha (Some (fileContent [] exampleSha)) = exampleSha
   \<and> pr (getVersions (exampleHost mainOut (Some (CHR 0x0A # exampleSha)) baseOut) ''.ui-sha'')
       = Some []
   \<and> readLastSha (Some (''abc123'' @ [CHR 0x0A])) = []
   \<and> (let onMain = firstLine (fileContent [] otherSha) @ [CHR 0x0A];
           h = exampleHost (Some onMain) (Some (fileContent [] exampleSha)) (Some onMain);
           danger = exampleDanger ''feature/x'' [''.ui-sha''] [] []
       in readLastSha (Some (fileContent [] otherSha)) = otherSha
        \<and> otherSha \<noteq> exampleSha
        \<and> \<not> branchAllowed h noOptions danger
        \<and> isModifiedOn noOptions danger
        \<and> main (getVersions h ''.ui-sha'') = pr (getVersions h ''.ui-sha'')
        \<and> \<not> shouldBlock (checkPackVersion h danger noOptions)
        \<and> reason (checkPackVersion h danger noOptions) = reasonMatch)"
proof -
  have a: "pr (getVersions (exampleHost mainOut (Some (fileContent [] exampleSha)) baseOut) ''.ui-sha'')
     = Some ''# SHA of the last packed version of package''"
    by (simp add: example_defs reader_defs fileContent_def exampleSha_def)
  have b: "readLastSha (Some (fileContent [] exampleSha)) = exampleSha"
    by (simp add: pipeline_defs exampleSha_def)
  have c: "readLastSha (Some (fileContent [] otherSha)) = otherSha"
    by (simp add: pipeline_defs otherSha_def)
  have f: "pr (getVersions (exampleHost mainOut (Some (CHR 0x0A # exampleSha)) baseOut) ''.ui-sha'')
       = Some []"
    by (simp add: example_defs reader_defs)
  have g: "readLastSha (Some (''abc123'' @ [CHR 0x0A])) = []"
    by (simp add: pipeline_defs)
  have d: "otherSha \<noteq> exampleSha"
    by (simp add: otherSha_def exampleSha_def)
  have e: "(let onMain = firstLine (fileContent [] otherSha) @ [CHR 0x0A];
           h = exampleHost (Some onMain) (Some (fileContent [] exampleSha)) (Some onMain);
           danger = exampleDanger ''feature/x'' [''.ui-sha''] [] []
       in \<not> branchAllowed h noOptions danger
        \<and> isModifiedOn noOptions danger
        \<and> main (getVersions h ''.ui-sha'') = pr (getVersions h ''.ui-sha'')
        \<and> \<not> shouldBlock (checkPackVersion h danger noOptions)
        \<and> reason (checkPackVersion h danger noOptions) = reasonMatch)"
    by (simp add: Let_def engine_defs example_defs reader_defs evaluateBlockingConditions_def
        fileContent_def exampleSha_def otherSha_def)
  from a b c d e f g show ?thesis by (simp add: Let_def)
qed

section \<open>Properties of the SHA Resolution and Rollback Guard\<close>

text \<open>
  C8. Where the requested target resolves to a commit, the previous identifier is known
  and is not an ancestor of that commit, \<open>resolve\<close> fails with \<open>RollbackRejected\<close>
  when rollbacks are not allowed, and returns the resolution with \<open>isRollback\<close> set
  when they are.
\<close>

theorem rollback_guard:
  assumes "resolveTarget up requestedTarget = Some resolved"
    and "versionReader trackedFilePath = Some previous"
    and "\<not> isAncestor up previous resolved"
  shows "resolve up versionReader requestedTarget trackedFilePath False = Inl RollbackRejected
       \<and> resolve up versionReader requestedTarget trackedFilePath True
           = Inr \<lparr> resolvedIdentifier = resolved, shortIdentifier = take 8 resolved,
                   previousIdentifier = Some previous, isRollback = True \<rparr>"
  using assms by (simp add: resolve_def Let_def)

text \<open>
  Scenario E of the specification: the previous identifier is \<open>bbb\<close> and the target is
  its parent \<open>aaa\<close>.
\<close>

theorem rollback_guard_witness:
  "resolveTarget exampleUpstream ''aaa'' = Some ''aaa''
   \<and> exampleReader ''.ui-sha'' = Some ''bbb''
   \<and> \<not> isAncestor exampleUpstream ''bbb'' ''aaa''
   \<and> isAncestor exampleUpstream ''aaa'' ''bbb''
   \<and> resolve exampleUpstream exampleReader ''aaa'' ''.ui-sha'' False = Inl RollbackRejected
   \<and> resolve exampleUpstream exampleReader ''aaa'' ''.ui-sha'' True
       = Inr \<lparr> resolvedIdentifier = ''aaa'', shortIdentifier = ''aaa'',
               previousIdentifier = Some ''bbb'', isRollback = True \<rparr>"
proof -
  have t: "resolveTarget exampleUpstream ''aaa'' = Some ''aaa''"
    by (simp add: resolveTarget_def exampleUpstream_def Let_def)
  have r: "exampleReader ''.ui-sha'' = Some ''bbb''"
    by (simp add: exampleReader_def)
  have n: "\<not> isAncestor exampleUpstream ''bbb'' ''aaa''"
    by (simp add: isAncestor_def exampleUpstream_def parentsOf_def numeral_2_eq_2)
  have y: "isAncestor exampleUpstream ''aaa'' ''bbb''"
    by (simp add: isAncestor_def exampleUpstream_def parentsOf_def numeral_2_eq_2)
  from rollback_guard [where versionReader = exampleReader, OF t r n] t r n y
  show ?thesis by simp
qed

end
